theory Spec2Isabelle
  imports Complex_Main
begin

section \<open>Session and transfer engine of backend/service.py\<close>

text \<open>
  A shallow embedding of the transfer bookkeeping (\<^verbatim>\<open>TransferProgress\<close>,
  \<^verbatim>\<open>TransferManager\<close>, \<^verbatim>\<open>OptimizedFileTransfer\<close>) and of the interactive-session
  handlers (\<^verbatim>\<open>handle_ssh_connection\<close>, \<^verbatim>\<open>handle_ssh_input\<close>, \<^verbatim>\<open>handle_ssh_close\<close>,
  \<^verbatim>\<open>handle_resize\<close>, \<^verbatim>\<open>read_output\<close>) of \<^verbatim>\<open>src/backend/service.py\<close>.

  Conventions.
  \<^item> Python \<^verbatim>\<open>int\<close> is \<open>int\<close>; Python \<^verbatim>\<open>float\<close> (clock readings, speeds, percentages)
    is idealised as \<open>real\<close>; \<^verbatim>\<open>str\<close> is \<open>string\<close>.
  \<^item> A dictionary is a map; a value fetched with \<^verbatim>\<open>data.get(key, default)\<close> is an
    \<open>option\<close> with the default written out where the code reads it.
  \<^item> \<^verbatim>\<open>time.time()\<close> is an input of the function that reads it.
  \<^item> \<^verbatim>\<open>print\<close> and \<^verbatim>\<open>logger\<close> calls write to the server console only and are left out.
  \<^item> Locks are left out: a handler body and one iteration of the reading loop are atomic
    steps (the handlers that change a table do so under the table's lock).
\<close>

subsection \<open>TransferProgress\<close>

record transfer_progress =
  total_size :: int
  current_size :: int
  start_time :: real
  operation :: string
  last_update_time :: real
  last_size :: int
  speed_samples :: "real list"
  speed :: real
  progress :: real
  estimated_time :: real
  status :: string
  cancelled :: bool

text \<open>\<^verbatim>\<open>TransferProgress.__init__\<close>; the two arguments \<open>t0\<close> and \<open>t1\<close> are the two
  clock readings it takes.\<close>

definition TransferProgress_init :: "int \<Rightarrow> string \<Rightarrow> real \<Rightarrow> real \<Rightarrow> transfer_progress" where
  "TransferProgress_init tsize opn t0 t1 =
     \<lparr> total_size = tsize, current_size = 0, start_time = t0, operation = opn,
       last_update_time = t1, last_size = 0, speed_samples = [], speed = 0,
       progress = 0, estimated_time = 0, status = ''normal'', cancelled = False \<rparr>"

text \<open>\<^verbatim>\<open>TransferProgress.update(bytes_transferred)\<close>, with \<open>current_time\<close> the clock reading.
  The byte count is stored unconditionally; everything else only when the clock has
  advanced since the last recorded update.\<close>

definition TransferProgress_update :: "int \<Rightarrow> real \<Rightarrow> transfer_progress \<Rightarrow> transfer_progress" where
  "TransferProgress_update bytes_transferred current_time p =
     (let p1 = p\<lparr>current_size := bytes_transferred\<rparr>;
          time_diff = current_time - last_update_time p1
      in if time_diff > 0 then
           (let size_diff = current_size p1 - last_size p1;
                instant_speed = real_of_int size_diff / time_diff;
                samples0 = speed_samples p1 @ [instant_speed];
                samples = (if length samples0 > 5 then tl samples0 else samples0);
                spd = sum_list samples / real (length samples);
                prog = (if total_size p1 > 0
                        then min 100 ((real_of_int (current_size p1) / real_of_int (total_size p1)) * 100)
                        else 0);
                remaining_bytes = max 0 (total_size p1 - current_size p1);
                eta = (if spd > 0 then real_of_int remaining_bytes / spd else 0)
            in p1\<lparr> speed_samples := samples, speed := spd, progress := prog,
                    estimated_time := eta, last_update_time := current_time,
                    last_size := current_size p1 \<rparr>)
         else p1)"

definition TransferProgress_cancel :: "transfer_progress \<Rightarrow> transfer_progress" where
  "TransferProgress_cancel p = p\<lparr> status := ''cancelled'', cancelled := True \<rparr>"

definition TransferProgress_is_cancelled :: "transfer_progress \<Rightarrow> bool" where
  "TransferProgress_is_cancelled p = cancelled p"

text \<open>A sequence of \<^verbatim>\<open>update\<close> calls, each with its byte count and clock reading.\<close>

fun updates :: "(int \<times> real) list \<Rightarrow> transfer_progress \<Rightarrow> transfer_progress" where
  "updates [] p = p"
| "updates ((b, t) # us) p = updates us (TransferProgress_update b t p)"

subsection \<open>TransferManager\<close>

text \<open>The two dictionaries of the manager. The key type is a parameter: the handlers
  pass whatever \<^verbatim>\<open>data.get('transferId')\<close> returned, \<^verbatim>\<open>None\<close> included. The progress
  objects are only reached through the table in what follows, so the table holds them by
  value.\<close>

record 'k transfer_manager =
  transfers :: "'k \<rightharpoonup> transfer_progress"
  cancel_flags :: "'k \<rightharpoonup> bool"

definition TransferManager_init :: "'k transfer_manager" where
  "TransferManager_init = \<lparr> transfers = Map.empty, cancel_flags = Map.empty \<rparr>"

definition cancel_transfer :: "'k \<Rightarrow> 'k transfer_manager \<Rightarrow> bool \<times> 'k transfer_manager" where
  "cancel_transfer transfer_id tm =
     (case transfers tm transfer_id of
        Some transfer \<Rightarrow>
          (True, tm\<lparr> transfers := (transfers tm)(transfer_id \<mapsto> TransferProgress_cancel transfer),
                     cancel_flags := (cancel_flags tm)(transfer_id \<mapsto> True) \<rparr>)
      | None \<Rightarrow> (False, tm))"

definition is_cancelled :: "'k \<Rightarrow> 'k transfer_manager \<Rightarrow> bool" where
  "is_cancelled transfer_id tm =
     (case cancel_flags tm transfer_id of Some b \<Rightarrow> b | None \<Rightarrow> False)"

definition create_transfer ::
  "'k \<Rightarrow> int \<Rightarrow> string \<Rightarrow> real \<Rightarrow> real \<Rightarrow> 'k transfer_manager \<Rightarrow> transfer_progress \<times> 'k transfer_manager" where
  "create_transfer transfer_id tsize opn t0 t1 tm =
     (let prog = TransferProgress_init tsize opn t0 t1
      in (prog, tm\<lparr> transfers := (transfers tm)(transfer_id \<mapsto> prog),
                         cancel_flags := (cancel_flags tm)(transfer_id \<mapsto> False) \<rparr>))"

definition get_transfer :: "'k \<Rightarrow> 'k transfer_manager \<Rightarrow> transfer_progress option" where
  "get_transfer transfer_id tm = transfers tm transfer_id"

definition remove_transfer :: "'k \<Rightarrow> 'k transfer_manager \<Rightarrow> 'k transfer_manager" where
  "remove_transfer transfer_id tm =
     tm\<lparr> transfers := (transfers tm)(transfer_id := None),
         cancel_flags := (cancel_flags tm)(transfer_id := None) \<rparr>"

subsection \<open>OptimizedFileTransfer\<close>

record 'k optimized_file_transfer =
  transfer_id :: 'k
  ft_total_size :: int
  ft_current_size :: int
  buffer_size :: int
  chunk_size :: int
  use_parallel :: bool

definition calculate_buffer_size :: "int \<Rightarrow> int" where
  "calculate_buffer_size file_size =
     (if file_size > 1024 * 1024 * 1024 then 16 * 1024 * 1024
      else if file_size > 100 * 1024 * 1024 then 8 * 1024 * 1024
      else 1 * 1024 * 1024)"

definition calculate_chunk_size :: "int \<Rightarrow> int" where
  "calculate_chunk_size file_size =
     (if file_size > 1024 * 1024 * 1024 then 4 * 1024 * 1024
      else if file_size > 100 * 1024 * 1024 then 2 * 1024 * 1024
      else 1 * 1024 * 1024)"

definition OptimizedFileTransfer_init :: "'k \<Rightarrow> int \<Rightarrow> 'k optimized_file_transfer" where
  "OptimizedFileTransfer_init tid tsize =
     \<lparr> transfer_id = tid, ft_total_size = tsize, ft_current_size = 0,
       buffer_size = calculate_buffer_size tsize,
       chunk_size = calculate_chunk_size tsize,
       use_parallel = (tsize > 100 * 1024 * 1024) \<rparr>"

subsection \<open>The opening of upload_file and download_file\<close>

text \<open>The fields of the upload request that the opening of \<^verbatim>\<open>upload_file\<close> reads.\<close>

record upload_data =
  chunkIndex :: "int option"
  transferId :: "string option"
  totalSize :: "int option"

datatype upload_response = Cancelled_200

text \<open>\<^verbatim>\<open>upload_file\<close> from its first line to the cancellation check (source lines
  847 to 868): the sizing object is built from the declared total, the progress entry is
  created on chunk 0 and fetched otherwise, and a cancelled entry ends the request with
  the \<^verbatim>\<open>cancelled\<close> response. \<open>Inl\<close> is that early return; \<open>Inr\<close> is the state in
  which the rest of the request runs.\<close>

definition upload_file_begin ::
  "upload_data \<Rightarrow> real \<Rightarrow> real \<Rightarrow> string option transfer_manager \<Rightarrow>
   (upload_response + string option optimized_file_transfer \<times> transfer_progress option)
   \<times> string option transfer_manager" where
  "upload_file_begin data t0 t1 tm =
     (let chunk_index = (case chunkIndex data of Some i \<Rightarrow> i | None \<Rightarrow> 0);
          tid = transferId data;
          tsize = (case totalSize data of Some n \<Rightarrow> n | None \<Rightarrow> 0);
          transfer = OptimizedFileTransfer_init tid tsize;
          (transfer_progress, tm') =
             (if chunk_index = 0
              then (case create_transfer tid tsize ''upload'' t0 t1 tm of (p, tm1) \<Rightarrow> (Some p, tm1))
              else (get_transfer tid tm, tm))
      in case transfer_progress of
           Some p \<Rightarrow> if TransferProgress_is_cancelled p
                     then (Inl Cancelled_200, tm')
                     else (Inr (transfer, transfer_progress), tm')
         | None \<Rightarrow> (Inr (transfer, transfer_progress), tm'))"

text \<open>\<^verbatim>\<open>download_file\<close> after the remote \<^verbatim>\<open>stat\<close> (source lines 1024 to 1026):
  \<open>file_size\<close> is the size the remote host reported.\<close>

definition download_file_begin ::
  "string option \<Rightarrow> int \<Rightarrow> real \<Rightarrow> real \<Rightarrow> string option transfer_manager \<Rightarrow>
   (string option optimized_file_transfer \<times> transfer_progress) \<times> string option transfer_manager" where
  "download_file_begin tid file_size t0 t1 tm =
     (let transfer = OptimizedFileTransfer_init tid file_size;
          (transfer_progress, tm') = create_transfer tid file_size ''download'' t0 t1 tm
      in ((transfer, transfer_progress), tm'))"

text \<open>The closure \<^verbatim>\<open>progress_callback(transferred, total)\<close> of \<^verbatim>\<open>download_file.generate\<close>
  (source lines 1034 to 1039). Its state is the cell \<^verbatim>\<open>current_size[0]\<close> and the captured
  progress object; \<open>now\<close> is the clock reading of the \<^verbatim>\<open>update\<close> call. \<open>Inl\<close> is the
  \<^verbatim>\<open>Exception("Transfer cancelled")\<close> it raises.\<close>

datatype transfer_error = Transfer_cancelled

definition progress_callback ::
  "int \<Rightarrow> int \<Rightarrow> real \<Rightarrow> int \<times> transfer_progress \<Rightarrow> transfer_error + int \<times> transfer_progress" where
  "progress_callback transferred total_arg now cell =
     (case cell of (current_size0, transfer_progress) \<Rightarrow>
        if TransferProgress_is_cancelled transfer_progress then Inl Transfer_cancelled
        else Inr (current_size0 + transferred,
                  TransferProgress_update (current_size0 + transferred) now transfer_progress))"

subsection \<open>Sessions, events and external calls\<close>

text \<open>An \<^verbatim>\<open>SSHSession\<close> object. The paramiko client and channel are external objects,
  known here by a number; the thread is an index into the thread table below. The lock
  is not modelled.\<close>

record ssh_session =
  ssh_client :: nat
  channel :: nat
  active :: bool
  read_thread :: "nat option"
  client_id :: "string option"
  realtime_thread :: "nat option"

text \<open>The text of an \<^verbatim>\<open>ssh_error\<close> event: a literal or formatted string, or
  \<^verbatim>\<open>str(e)\<close> of a \<^verbatim>\<open>KeyError\<close> raised on the given key.\<close>

datatype error_text = Text string | Str_KeyError string

text \<open>The four events the handlers emit, with the fields of their payloads:
  session id, then error text and optional \<^verbatim>\<open>type\<close>, message, or output.\<close>

datatype event =
    Ssh_error string error_text "string option"
  | Ssh_connected string string
  | Ssh_output string string
  | Ssh_closed string string

text \<open>An emission is an event with its \<^verbatim>\<open>room\<close>: \<open>Some c\<close> when the event is sent to
  client \<open>c\<close> only, \<open>None\<close> when \<^verbatim>\<open>socketio.emit\<close> is called without a room and the
  event goes to every connected client.\<close>

type_synonym emission = "event \<times> string option"

text \<open>Calls made on the external channel and client objects, in the order made.\<close>

datatype io_call =
    Channel_send nat string
  | Channel_close nat
  | Client_close nat
  | Resize_pty nat int int
  | Update_environment nat "(string \<times> string) list"

text \<open>A \<^verbatim>\<open>read_output\<close> thread: its two arguments and where it stands. \<open>Looping\<close>
  carries the thread's locals \<^verbatim>\<open>last_activity\<close> and \<^verbatim>\<open>buffer\<close>; \<open>Finished\<close> is the
  thread after its \<^verbatim>\<open>finally\<close> block.\<close>

datatype thread_state = Looping real string | Finished

record read_thread_obj =
  th_session_id :: string
  th_channel :: nat
  th_state :: thread_state

text \<open>The module's global tables \<^verbatim>\<open>ssh_sessions\<close> and \<^verbatim>\<open>client_sessions\<close>, the threads
  created so far, and the two observable traces: events emitted and external calls made.\<close>

record server =
  ssh_sessions :: "string \<rightharpoonup> ssh_session"
  client_sessions :: "string \<rightharpoonup> string set"
  threads :: "read_thread_obj list"
  emitted :: "emission list"
  io_calls :: "io_call list"

definition server_init :: server where
  "server_init = \<lparr> ssh_sessions = Map.empty, client_sessions = Map.empty, threads = [],
                    emitted = [], io_calls = [] \<rparr>"

definition emit :: "event \<Rightarrow> string option \<Rightarrow> server \<Rightarrow> server" where
  "emit e room st = st\<lparr> emitted := emitted st @ [(e, room)] \<rparr>"

definition call :: "io_call \<Rightarrow> server \<Rightarrow> server" where
  "call c st = st\<lparr> io_calls := io_calls st @ [c] \<rparr>"

subsection \<open>handle_ssh_connection\<close>

text \<open>What \<^verbatim>\<open>create_ssh_client(data)\<close> did: it returned a client and a channel, or raised
  one of the three kinds of exception the handler tells apart (with \<^verbatim>\<open>str\<close> of the
  exception where the handler formats it).\<close>

datatype connect_outcome =
    Connected nat nat
  | Raises_ConnectionError string
  | Raises_AuthenticationException
  | Raises_Exception string

text \<open>\<^verbatim>\<open>handle_ssh_connection(data)\<close> for the client \<open>client\<close> (\<^verbatim>\<open>request.sid\<close>) and
  \<^verbatim>\<open>data['session_id'] = session_id\<close>. Creating and starting the thread,
  \<^verbatim>\<open>socketio.sleep\<close> and \<^verbatim>\<open>socketio.emit\<close> are taken to return normally. Starting the
  thread runs the first lines of \<^verbatim>\<open>read_output\<close>, which set its locals from the clock
  reading \<open>now\<close> and touch nothing shared.\<close>

definition handle_ssh_connection ::
  "string \<Rightarrow> string \<Rightarrow> connect_outcome \<Rightarrow> real \<Rightarrow> server \<Rightarrow> server" where
  "handle_ssh_connection client session_id conn now st =
     (case conn of
        Raises_ConnectionError msg \<Rightarrow>
          emit (Ssh_error session_id (Text (''Network Connection Failed: '' @ msg)) (Some ''network''))
               (Some client) st
      | Raises_AuthenticationException \<Rightarrow>
          emit (Ssh_error session_id
                  (Text ''Authentication Failed: Invalid username, password or key'') (Some ''auth''))
               (Some client) st
      | Raises_Exception msg \<Rightarrow>
          emit (Ssh_error session_id (Text (''Connection failed: '' @ msg)) (Some ''unknown''))
               (Some client) st
      | Connected ssh chan \<Rightarrow>
          (let tid = length (threads st);
               session = \<lparr> ssh_client = ssh, channel = chan, active = True,
                           read_thread = Some tid, client_id = Some client,
                           realtime_thread = None \<rparr>;
               st1 = st\<lparr> ssh_sessions := (ssh_sessions st)(session_id \<mapsto> session),
                         client_sessions := (client_sessions st)
                           (client \<mapsto> insert session_id
                              (case client_sessions st client of None \<Rightarrow> {} | Some S \<Rightarrow> S)) \<rparr>;
               st2 = st1\<lparr> threads := threads st1 @
                           [\<lparr> th_session_id = session_id, th_channel = chan,
                              th_state = Looping now [] \<rparr>] \<rparr>
           in emit (Ssh_connected session_id ''Connected successfully'') (Some client) st2))"

subsection \<open>handle_ssh_input\<close>

text \<open>\<^verbatim>\<open>handle_ssh_input(data)\<close> for the client \<open>client\<close>. \<open>isPasted\<close> and \<open>isLastLine\<close>
  are the optional fields of the request. \<open>send_exn\<close> and \<open>newline_exn\<close> say what the two
  \<^verbatim>\<open>channel.send\<close> calls do: \<open>None\<close> when the call returns, \<open>Some msg\<close> when it raises an
  exception \<open>e\<close> with \<^verbatim>\<open>str(e) = msg\<close>; the handler's outer \<^verbatim>\<open>except\<close> then emits an
  \<^verbatim>\<open>ssh_error\<close> without a room.\<close>

definition handle_ssh_input ::
  "string \<Rightarrow> string \<Rightarrow> string \<Rightarrow> bool option \<Rightarrow> bool option \<Rightarrow>
   string option \<Rightarrow> string option \<Rightarrow> server \<Rightarrow> server" where
  "handle_ssh_input client session_id input_data isPasted isLastLine send_exn newline_exn st =
     (let is_pasted = (case isPasted of Some b \<Rightarrow> b | None \<Rightarrow> False);
          is_last_line = (case isLastLine of Some b \<Rightarrow> b | None \<Rightarrow> False)
      in case ssh_sessions st session_id of
           None \<Rightarrow>
             emit (Ssh_error session_id (Text ''Session not found or inactive'') None) (Some client) st
         | Some session \<Rightarrow>
             if \<not> active session then
               emit (Ssh_error session_id (Text ''Session not found or inactive'') None) (Some client) st
             else if client_id session \<noteq> Some client then
               emit (Ssh_error session_id (Text ''Session belongs to another client'') None)
                    (Some client) st
             else
               (let st1 = call (Channel_send (channel session) input_data) st
                in case send_exn of
                     Some msg \<Rightarrow> emit (Ssh_error session_id (Text msg) None) None st1
                   | None \<Rightarrow>
                       if is_pasted \<and> \<not> is_last_line then
                         (let st2 = call (Channel_send (channel session) [CHR 0x0A]) st1
                          in case newline_exn of
                               Some msg \<Rightarrow> emit (Ssh_error session_id (Text msg) None) None st2
                             | None \<Rightarrow> st2)
                       else st1))"

subsection \<open>handle_ssh_close\<close>

text \<open>\<^verbatim>\<open>handle_ssh_close(data)\<close> for the client \<open>client\<close>. The two flags say whether
  \<^verbatim>\<open>session.channel.close()\<close> and \<^verbatim>\<open>session.ssh_client.close()\<close> raise; the inner
  \<^verbatim>\<open>except: pass\<close> drops the exception, and a raising channel close skips the client
  close. \<^verbatim>\<open>set.remove\<close> raises \<^verbatim>\<open>KeyError\<close> on a missing element, which the outer
  \<^verbatim>\<open>except\<close> turns into an \<^verbatim>\<open>ssh_error\<close> without a room. A session of another client
  and an unknown session are only printed.\<close>

definition handle_ssh_close :: "string \<Rightarrow> string \<Rightarrow> bool \<Rightarrow> bool \<Rightarrow> server \<Rightarrow> server" where
  "handle_ssh_close client session_id channel_close_raises client_close_raises st =
     (case ssh_sessions st session_id of
        None \<Rightarrow> st
      | Some session \<Rightarrow>
          if client_id session = Some client then
            (let st0 = st\<lparr> ssh_sessions := (ssh_sessions st)(session_id \<mapsto> session\<lparr>active := False\<rparr>) \<rparr>;
                 st1 = call (Channel_close (channel session)) st0;
                 st2 = (if channel_close_raises then st1
                        else call (Client_close (ssh_client session)) st1);
                 st3 = st2\<lparr> ssh_sessions := (ssh_sessions st2)(session_id := None) \<rparr>
             in case client_sessions st3 client of
                  None \<Rightarrow> emit (Ssh_closed session_id ''Connection closed'') None st3
                | Some S \<Rightarrow>
                    if session_id \<in> S then
                      emit (Ssh_closed session_id ''Connection closed'') None
                        (st3\<lparr> client_sessions := (client_sessions st3)(client \<mapsto> S - {session_id}) \<rparr>)
                    else
                      emit (Ssh_error session_id (Str_KeyError session_id) None) None st3)
          else st)"

subsection \<open>handle_resize\<close>

text \<open>Python's \<^verbatim>\<open>str\<close> on an \<^verbatim>\<open>int\<close>: the decimal digits, with a minus sign for a negative
  number.\<close>

fun str_nat :: "nat \<Rightarrow> string" where
  "str_nat n = (if n < 10 then [''0123456789'' ! n]
                else str_nat (n div 10) @ [''0123456789'' ! (n mod 10)])"

declare str_nat.simps [simp del]

definition str :: "int \<Rightarrow> string" where
  "str i = (if i < 0 then CHR ''-'' # str_nat (nat (- i)) else str_nat (nat i))"

text \<open>\<^verbatim>\<open>handle_resize(data)\<close>. The handler never reads \<^verbatim>\<open>request.sid\<close>; the client the
  request came from is the first argument all the same, as for the other handlers.
  \<open>session_id\<close>, \<open>cols\<close> and \<open>rows\<close> are the optional fields of the request;
  \<^verbatim>\<open>not session_id\<close> holds for a missing and for an empty id. \<open>resize_pty_raises\<close> says
  whether \<^verbatim>\<open>channel.resize_pty\<close> raises, which skips \<^verbatim>\<open>update_environment\<close>; an
  exception of either call is logged and dropped.\<close>

definition handle_resize ::
  "string \<Rightarrow> string option \<Rightarrow> int option \<Rightarrow> int option \<Rightarrow> bool \<Rightarrow> server \<Rightarrow> server" where
  "handle_resize client session_id cols rows resize_pty_raises st =
     (case session_id of
        None \<Rightarrow> st
      | Some sid \<Rightarrow>
          if sid = [] then st
          else (case ssh_sessions st sid of
                  None \<Rightarrow> st
                | Some session \<Rightarrow>
                    (let c = max 80 (min (case cols of Some n \<Rightarrow> n | None \<Rightarrow> 80) 500);
                         r = max 24 (min (case rows of Some n \<Rightarrow> n | None \<Rightarrow> 24) 200);
                         st1 = call (Resize_pty (channel session) c r) st
                     in if resize_pty_raises then st1
                        else call (Update_environment (channel session)
                                     [(''COLUMNS'', str c), (''LINES'', str r)]) st1)))"

subsection \<open>read_output\<close>

text \<open>What the channel and the clock do during one iteration of the loop of
  \<^verbatim>\<open>read_output\<close>: the value of \<^verbatim>\<open>channel.recv_ready()\<close>; what \<^verbatim>\<open>channel.recv(1024)\<close>
  does (bytes, \<^verbatim>\<open>socket.timeout\<close>, or another exception); the reading of
  \<^verbatim>\<open>time.time()\<close>; whether the keepalive \<^verbatim>\<open>channel.send\<close> raises; and the value of the
  closing test \<^verbatim>\<open>channel.closed or not channel.get_transport() or not
  channel.get_transport().is_active()\<close>. An iteration reads the ones it reaches.\<close>

datatype recv_outcome = Recv string | Recv_timeout | Recv_error

record pump_obs =
  recv_ready :: bool
  recv :: recv_outcome
  clock :: real
  keepalive_raises :: bool
  channel_down :: bool

text \<open>The \<^verbatim>\<open>finally\<close> block of \<^verbatim>\<open>read_output\<close>.\<close>

definition read_output_finally :: "string \<Rightarrow> server \<Rightarrow> server" where
  "read_output_finally session_id st =
     emit (Ssh_closed session_id ''Connection closed'') None
       (case ssh_sessions st session_id of
          None \<Rightarrow> st
        | Some session \<Rightarrow>
            st\<lparr> ssh_sessions := (ssh_sessions st)(session_id \<mapsto> session\<lparr>active := False\<rparr>) \<rparr>)"

text \<open>One iteration of the \<^verbatim>\<open>while True\<close> loop of \<^verbatim>\<open>read_output(session_id, channel)\<close>
  from the locals \<open>last_activity\<close> and \<open>buffer\<close>. The result is \<open>Looping\<close> with the new
  locals when the loop goes on (also through \<^verbatim>\<open>continue\<close>), and \<open>Finished\<close> after the
  \<^verbatim>\<open>finally\<close> block when the iteration leaves the loop. \<open>decode\<close> is
  \<^verbatim>\<open>bytes.decode('utf-8', errors='ignore')\<close>, which raises nothing.\<close>

definition read_output_iteration ::
  "(string \<Rightarrow> string) \<Rightarrow> string \<Rightarrow> nat \<Rightarrow> real \<Rightarrow> string \<Rightarrow> pump_obs \<Rightarrow> server \<Rightarrow>
   thread_state \<times> server" where
  "read_output_iteration decode session_id chan last_activity buffer obs st =
     (let leave = (\<lambda>s. (Finished, read_output_finally session_id s));
          check = (\<lambda>la buf s. if channel_down obs then leave s else (Looping la buf, s))
      in case ssh_sessions st session_id of
           None \<Rightarrow> leave st
         | Some session \<Rightarrow>
             if \<not> active session then leave st
             else if recv_ready obs then
               (case recv obs of
                  Recv_timeout \<Rightarrow> (Looping last_activity buffer, st)
                | Recv_error \<Rightarrow> leave st
                | Recv data \<Rightarrow>
                    if data \<noteq> [] then
                      check (clock obs) []
                        (emit (Ssh_output session_id (decode (buffer @ data))) None st)
                    else check last_activity buffer st)
             else if clock obs - last_activity > 60 then
               (let st1 = call (Channel_send chan [CHR 0x00]) st
                in if keepalive_raises obs then leave st1
                   else check (clock obs) buffer st1)
             else check last_activity buffer st)"

subsection \<open>Executions\<close>

text \<open>The things that happen to the server: the four socket events, each with the client
  it came from and what the external calls it makes will do, and a \<^verbatim>\<open>read_output\<close> thread
  running one iteration of its loop. A handler body and a loop iteration are the units
  of interleaving.\<close>

datatype action =
    Open_ssh string string connect_outcome real
  | Ssh_input string string string "bool option" "bool option" "string option" "string option"
  | Close_ssh string string bool bool
  | Resize string "string option" "int option" "int option" bool
  | Pump nat pump_obs

definition pump :: "(string \<Rightarrow> string) \<Rightarrow> nat \<Rightarrow> pump_obs \<Rightarrow> server \<Rightarrow> server" where
  "pump decode tid obs st =
     (if tid < length (threads st) then
        (let th = threads st ! tid
         in case th_state th of
              Finished \<Rightarrow> st
            | Looping last_activity buffer \<Rightarrow>
                (case read_output_iteration decode (th_session_id th) (th_channel th)
                        last_activity buffer obs st of
                   (ts, st') \<Rightarrow> st'\<lparr> threads := (threads st')[tid := th\<lparr> th_state := ts \<rparr>] \<rparr>))
      else st)"

fun step :: "(string \<Rightarrow> string) \<Rightarrow> action \<Rightarrow> server \<Rightarrow> server" where
  "step decode (Open_ssh c sid conn now) st = handle_ssh_connection c sid conn now st"
| "step decode (Ssh_input c sid d p l e1 e2) st = handle_ssh_input c sid d p l e1 e2 st"
| "step decode (Close_ssh c sid r1 r2) st = handle_ssh_close c sid r1 r2 st"
| "step decode (Resize c sid cols rows r) st = handle_resize c sid cols rows r st"
| "step decode (Pump tid obs) st = pump decode tid obs st"

fun run :: "(string \<Rightarrow> string) \<Rightarrow> action list \<Rightarrow> server \<Rightarrow> server" where
  "run decode [] st = st"
| "run decode (a # as) st = run decode as (step decode a st)"

text \<open>The number of \<^verbatim>\<open>ssh_closed\<close> notifications carrying a session id among the events
  emitted, the number of \<^verbatim>\<open>read_output\<close> threads of a session that have left their loop,
  and whether a close request is one that \<^verbatim>\<open>handle_ssh_close\<close> carries out to its
  \<^verbatim>\<open>ssh_closed\<close> emission.\<close>

fun is_closed_event :: "string \<Rightarrow> emission \<Rightarrow> bool" where
  "is_closed_event sid (Ssh_closed sid' msg, room) = (sid' = sid)"
| "is_closed_event sid (e, room) = False"

definition closed_count :: "string \<Rightarrow> server \<Rightarrow> nat" where
  "closed_count sid st = length (filter (is_closed_event sid) (emitted st))"

definition finished_threads :: "string \<Rightarrow> server \<Rightarrow> nat" where
  "finished_threads sid st =
     length (filter (\<lambda>th. th_session_id th = sid \<and> th_state th = Finished) (threads st))"

definition close_succeeds :: "string \<Rightarrow> string \<Rightarrow> server \<Rightarrow> bool" where
  "close_succeeds client session_id st =
     (case ssh_sessions st session_id of
        None \<Rightarrow> False
      | Some session \<Rightarrow>
          client_id session = Some client \<and>
          (case client_sessions st client of None \<Rightarrow> True | Some S \<Rightarrow> session_id \<in> S))"

fun successful_closes :: "(string \<Rightarrow> string) \<Rightarrow> string \<Rightarrow> action list \<Rightarrow> server \<Rightarrow> nat" where
  "successful_closes decode sid [] st = 0"
| "successful_closes decode sid (a # as) st =
     (case a of
        Close_ssh c sid' r1 r2 \<Rightarrow> (if sid' = sid \<and> close_succeeds c sid st then 1 else 0)
      | _ \<Rightarrow> 0)
     + successful_closes decode sid as (step decode a st)"

subsection \<open>Concrete states used below\<close>

text \<open>A transfer that was created, cancelled and then removed.\<close>

definition cancelled_transfer :: "string transfer_manager" where
  "cancelled_transfer =
     snd (cancel_transfer ''t1''
        (snd (create_transfer ''t1'' 100 ''upload'' 0 0 TransferManager_init)))"

definition cancelled_then_removed :: "string transfer_manager" where
  "cancelled_then_removed = remove_transfer ''t1'' cancelled_transfer"

text \<open>The manager of the upload handler after an upload was created and cancelled.\<close>

definition cancelled_upload :: "string option transfer_manager" where
  "cancelled_upload =
     snd (cancel_transfer (Some ''t1'')
        (snd (create_transfer (Some ''t1'') 100 ''upload'' 0 0 TransferManager_init)))"

text \<open>The progress object of a download of 10 bytes, created at clock reading 0.\<close>

definition download_of_10 :: transfer_progress where
  "download_of_10 = TransferProgress_init 10 ''download'' 0 0"

text \<open>The server after client \<open>A\<close> opened session \<open>s\<close> (client object 1, channel 2),
  and after client \<open>A\<close> opened a session whose id is the empty string.\<close>

definition session_of_A :: server where
  "session_of_A = handle_ssh_connection ''A'' ''s'' (Connected 1 2) 0 server_init"

definition unnamed_session_of_A :: server where
  "unnamed_session_of_A = handle_ssh_connection ''A'' [] (Connected 1 2) 0 server_init"

text \<open>Two loop iterations as the channel may answer them: nothing to read on an open
  channel, and nothing to read on a channel the remote side has closed.\<close>

definition idle :: pump_obs where
  "idle = \<lparr> recv_ready = False, recv = Recv_timeout, clock = 1, keepalive_raises = False,
            channel_down = False \<rparr>"

definition hung_up :: pump_obs where
  "hung_up = \<lparr> recv_ready = False, recv = Recv_timeout, clock = 1, keepalive_raises = False,
               channel_down = True \<rparr>"

text \<open>A client opens a session, closes it, and the session's thread runs its next
  iteration; and the same with the remote side closing the channel before the client
  closes the session.\<close>

definition client_closes_first :: "action list" where
  "client_closes_first =
     [Open_ssh ''A'' ''s'' (Connected 1 2) 0, Close_ssh ''A'' ''s'' False False, Pump 0 idle]"

definition remote_closes_first :: "action list" where
  "remote_closes_first =
     [Open_ssh ''A'' ''s'' (Connected 1 2) 0, Pump 0 hung_up, Close_ssh ''A'' ''s'' False False]"

section \<open>Properties of the transfer bookkeeping\<close>

subsection \<open>Removal and the cancellation flag\<close>

text \<open>Claim C4 says that the cancellation flag of a cancelled transfer outlives
  \<^verbatim>\<open>remove_transfer\<close>. It does not: a transfer that is created, cancelled and removed is
  reported as not cancelled afterwards, although it was reported as cancelled before the
  removal.\<close>

theorem cancel_flag_gone_after_remove:
  "is_cancelled ''t1'' cancelled_transfer \<and> \<not> is_cancelled ''t1'' cancelled_then_removed"
  by (simp add: cancelled_then_removed_def cancelled_transfer_def is_cancelled_def
        remove_transfer_def cancel_transfer_def create_transfer_def Let_def)

text \<open>Claim C4, as the code has it: \<^verbatim>\<open>remove_transfer\<close> pops the id from both tables, so
  afterwards the manager neither holds a progress entry nor a cancellation flag for it and
  \<^verbatim>\<open>is_cancelled\<close> answers false, whatever the state before; every other id keeps its
  entry and its flag.\<close>

theorem remove_transfer_clears_both_tables:
  "\<not> is_cancelled tid (remove_transfer tid tm)
   \<and> get_transfer tid (remove_transfer tid tm) = None
   \<and> cancel_flags (remove_transfer tid tm) tid = None
   \<and> (\<forall>k. k \<noteq> tid \<longrightarrow>
         is_cancelled k (remove_transfer tid tm) = is_cancelled k tm
       \<and> get_transfer k (remove_transfer tid tm) = get_transfer k tm)"
  by (simp add: is_cancelled_def remove_transfer_def get_transfer_def)

text \<open>The statement above at the cancelled transfer \<open>t1\<close> and another id \<open>t2\<close>.\<close>

theorem remove_transfer_clears_both_tables_witness:
  "\<not> is_cancelled ''t1'' cancelled_then_removed
   \<and> get_transfer ''t1'' cancelled_then_removed = None
   \<and> ''t2'' \<noteq> ''t1''
   \<and> is_cancelled ''t2'' cancelled_then_removed = is_cancelled ''t2'' cancelled_transfer"
  using remove_transfer_clears_both_tables [of "''t1''" cancelled_transfer]
  by (simp add: cancelled_then_removed_def)

subsection \<open>Buffer and chunk sizes\<close>

text \<open>Claim C8: for every file size \<open>s\<close> the sizing object has buffer 16 MiB and chunk
  4 MiB when \<open>s\<close> is above 1 GiB, buffer 8 MiB and chunk 2 MiB when \<open>s\<close> is above 100 MiB
  and at most 1 GiB, and 1 MiB for both otherwise; the download builds that object from
  the remote file size, and the upload builds the same object from the declared total
  size (0 when the request declares none).\<close>

theorem sizing_policy:
  "(s > 1024 * 1024 * 1024 \<longrightarrow>
      buffer_size (OptimizedFileTransfer_init tid s) = 16 * 1048576 \<and>
      chunk_size (OptimizedFileTransfer_init tid s) = 4 * 1048576) \<and>
   (100 * 1048576 < s \<and> s \<le> 1024 * 1024 * 1024 \<longrightarrow>
      buffer_size (OptimizedFileTransfer_init tid s) = 8 * 1048576 \<and>
      chunk_size (OptimizedFileTransfer_init tid s) = 2 * 1048576) \<and>
   (s \<le> 100 * 1048576 \<longrightarrow>
      buffer_size (OptimizedFileTransfer_init tid s) = 1048576 \<and>
      chunk_size (OptimizedFileTransfer_init tid s) = 1048576) \<and>
   fst (fst (download_file_begin tid' s t0 t1 tm)) = OptimizedFileTransfer_init tid' s \<and>
   (\<forall>tr p tm'. upload_file_begin data t0 t1 tm = (Inr (tr, p), tm') \<longrightarrow>
       tr = OptimizedFileTransfer_init (transferId data)
              (case totalSize data of Some n \<Rightarrow> n | None \<Rightarrow> 0))"
  by (auto simp add: download_file_begin_def upload_file_begin_def OptimizedFileTransfer_init_def
        calculate_buffer_size_def calculate_chunk_size_def create_transfer_def Let_def
        split: prod.splits option.splits if_splits)

text \<open>The statement above at 2 GiB, at 500 MiB and at 4 KiB, and for an upload and a
  download of 500 MiB.\<close>

theorem sizing_policy_witness:
  "buffer_size (OptimizedFileTransfer_init ''t'' 2147483648) = 16777216
   \<and> chunk_size (OptimizedFileTransfer_init ''t'' 2147483648) = 4194304
   \<and> buffer_size (OptimizedFileTransfer_init ''t'' 524288000) = 8388608
   \<and> chunk_size (OptimizedFileTransfer_init ''t'' 524288000) = 2097152
   \<and> buffer_size (OptimizedFileTransfer_init ''t'' 4096) = 1048576
   \<and> chunk_size (OptimizedFileTransfer_init ''t'' 4096) = 1048576
   \<and> buffer_size (fst (fst (download_file_begin (Some ''d'') 524288000 0 0 TransferManager_init))) = 8388608
   \<and> (case fst (upload_file_begin \<lparr>chunkIndex = Some 0, transferId = Some ''u'',
                                   totalSize = Some 524288000\<rparr> 0 0 TransferManager_init) of
         Inl r \<Rightarrow> False | Inr x \<Rightarrow> buffer_size (fst x) = 8388608)"
  using sizing_policy [of 2147483648 "''t''" "Some ''d''" 0 0 TransferManager_init
          "\<lparr>chunkIndex = Some 0, transferId = Some ''u'', totalSize = Some 524288000\<rparr>"]
        sizing_policy [of 524288000 "''t''" "Some ''d''" 0 0 TransferManager_init
          "\<lparr>chunkIndex = Some 0, transferId = Some ''u'', totalSize = Some 524288000\<rparr>"]
        sizing_policy [of 4096 "''t''" "Some ''d''" 0 0 TransferManager_init
          "\<lparr>chunkIndex = Some 0, transferId = Some ''u'', totalSize = Some 524288000\<rparr>"]
  by (simp add: upload_file_begin_def OptimizedFileTransfer_init_def calculate_buffer_size_def
        create_transfer_def TransferProgress_init_def TransferProgress_is_cancelled_def Let_def)

subsection \<open>Creating a transfer again\<close>

text \<open>Claim C9: for every transfer id and every prior state of the manager,
  \<^verbatim>\<open>create_transfer\<close> installs a fresh progress object with status \<^verbatim>\<open>normal\<close> under the
  id and sets the id's cancellation flag to false, leaving every other id alone; so a
  second call for a cancelled id erases the cancellation. An upload request with chunk
  index 0 (or none) goes through \<^verbatim>\<open>create_transfer\<close>, passes the cancellation check
  and leaves the id registered as not cancelled, whatever the manager held before.\<close>

theorem create_transfer_resets_cancellation:
  "(let (p, tm') = create_transfer tid n opn t0 t1 tm
    in p = TransferProgress_init n opn t0 t1
     \<and> status p = ''normal'' \<and> \<not> TransferProgress_is_cancelled p
     \<and> get_transfer tid tm' = Some p
     \<and> \<not> is_cancelled tid tm'
     \<and> (\<forall>k. k \<noteq> tid \<longrightarrow>
           get_transfer k tm' = get_transfer k tm \<and> is_cancelled k tm' = is_cancelled k tm))
   \<and> (chunkIndex data = Some 0 \<or> chunkIndex data = None \<longrightarrow>
        (let (r, tm') = upload_file_begin data t0 t1 um
         in r = Inr (OptimizedFileTransfer_init (transferId data)
                       (case totalSize data of Some n \<Rightarrow> n | None \<Rightarrow> 0),
                     Some (TransferProgress_init
                       (case totalSize data of Some n \<Rightarrow> n | None \<Rightarrow> 0) ''upload'' t0 t1))
          \<and> \<not> is_cancelled (transferId data) tm'
          \<and> (\<exists>p. get_transfer (transferId data) tm' = Some p \<and> status p = ''normal''
                   \<and> \<not> TransferProgress_is_cancelled p)))"
  by (auto simp add: create_transfer_def upload_file_begin_def Let_def TransferProgress_init_def
        TransferProgress_is_cancelled_def get_transfer_def is_cancelled_def split: option.splits)

text \<open>The statement above at a cancelled upload \<open>t1\<close>: the manager reports it as
  cancelled, a later chunk (index 1) is answered with the cancelled response, and both
  \<^verbatim>\<open>create_transfer\<close> and a chunk with index 0 make it uncancelled again.\<close>

theorem create_transfer_resets_cancellation_witness:
  "is_cancelled (Some ''t1'') cancelled_upload
   \<and> (\<exists>p. get_transfer (Some ''t1'') cancelled_upload = Some p \<and> status p = ''cancelled'')
   \<and> fst (upload_file_begin \<lparr>chunkIndex = Some 1, transferId = Some ''t1'', totalSize = Some 100\<rparr>
            5 5 cancelled_upload) = Inl Cancelled_200
   \<and> \<not> is_cancelled (Some ''t1'')
         (snd (create_transfer (Some ''t1'') 100 ''upload'' 5 5 cancelled_upload))
   \<and> \<not> is_cancelled (Some ''t1'')
         (snd (upload_file_begin \<lparr>chunkIndex = Some 0, transferId = Some ''t1'', totalSize = Some 100\<rparr>
                 5 5 cancelled_upload))
   \<and> (\<exists>x. fst (upload_file_begin \<lparr>chunkIndex = Some 0, transferId = Some ''t1'', totalSize = Some 100\<rparr>
                 5 5 cancelled_upload) = Inr x)"
  using create_transfer_resets_cancellation
          [of "Some ''t1''" 100 "''upload''" 5 5 cancelled_upload
              "\<lparr>chunkIndex = Some 0, transferId = Some ''t1'', totalSize = Some 100\<rparr>"
              cancelled_upload]
  apply (simp add: cancelled_upload_def split: prod.splits)
  apply (simp add: create_transfer_def upload_file_begin_def Let_def TransferProgress_init_def
        TransferProgress_cancel_def cancel_transfer_def TransferProgress_is_cancelled_def
        get_transfer_def is_cancelled_def TransferManager_init_def)
  done

subsection \<open>Progress snapshots\<close>

lemma update_progress_bounds:
  assumes "0 \<le> b" and "0 \<le> progress p" and "progress p \<le> 100"
  shows "0 \<le> progress (TransferProgress_update b t p) \<and>
         progress (TransferProgress_update b t p) \<le> 100"
  using assms by (simp add: TransferProgress_update_def Let_def)

lemma update_sizes:
  "current_size (TransferProgress_update b t p) = b \<and>
   total_size (TransferProgress_update b t p) = total_size p"
  by (simp add: TransferProgress_update_def Let_def)

lemma update_progress_clock_advanced:
  "last_update_time p < t \<Longrightarrow>
   progress (TransferProgress_update b t p) =
     (if total_size p > 0 then min 100 (real_of_int b / real_of_int (total_size p) * 100) else 0)"
  by (simp add: TransferProgress_update_def Let_def)

lemma update_progress_clock_stale:
  "t \<le> last_update_time p \<Longrightarrow> progress (TransferProgress_update b t p) = progress p"
  by (simp add: TransferProgress_update_def Let_def)

lemma updates_progress_bounds:
  "\<forall>u \<in> set us. 0 \<le> fst u \<Longrightarrow> 0 \<le> progress p \<Longrightarrow> progress p \<le> 100 \<Longrightarrow>
   0 \<le> progress (updates us p) \<and> progress (updates us p) \<le> 100"
proof (induction us arbitrary: p)
  case Nil
  then show ?case by simp
next
  case (Cons u us)
  obtain b t where u: "u = (b, t)" by (cases u)
  from Cons.prems u have b: "0 \<le> b" by simp
  have "0 \<le> progress (TransferProgress_update b t p) \<and>
        progress (TransferProgress_update b t p) \<le> 100"
    using update_progress_bounds [OF b] Cons.prems by simp
  with Cons.IH [of "TransferProgress_update b t p"] Cons.prems u show ?case by simp
qed

lemma updates_total_size: "total_size (updates us p) = total_size p"
  by (induction us arbitrary: p) (auto simp add: update_sizes)

lemma updates_current_size: "us \<noteq> [] \<Longrightarrow> current_size (updates us p) = fst (last us)"
proof (induction us arbitrary: p)
  case Nil
  then show ?case by simp
next
  case (Cons u us)
  obtain b t where u: "u = (b, t)" by (cases u)
  show ?case
  proof (cases "us = []")
    case True
    with u show ?thesis by (simp add: update_sizes)
  next
    case False
    with Cons.IH [OF False, of "TransferProgress_update b t p"] u show ?thesis by simp
  qed
qed

text \<open>Claim C5 says that every snapshot has \<open>0 \<le> transferred \<le> total\<close> and a percentage
  equal to \<open>min(100, transferred/total*100)\<close>. Neither holds. \<^verbatim>\<open>update\<close> stores
  whatever byte count it is given: \<^verbatim>\<open>update(20)\<close> on a download of 10 bytes leaves
  transferred at 20. The download's \<^verbatim>\<open>progress_callback\<close> adds each reported count to its
  running sum, so the reports 5 and 10 give 15 of 10 bytes. And an update whose clock
  reading is not later than the last recorded one stores the byte count but not the
  percentage: \<^verbatim>\<open>update(5)\<close> at the clock reading of the creation leaves 5 of 10 bytes
  at 0 percent.\<close>

theorem transferred_exceeds_total:
  "total_size (TransferProgress_update 20 1 download_of_10) = 10
   \<and> current_size (TransferProgress_update 20 1 download_of_10) = 20
   \<and> progress_callback 10 10 2 (5, TransferProgress_update 5 1 download_of_10)
       = Inr (15, TransferProgress_update 15 2 (TransferProgress_update 5 1 download_of_10))
   \<and> current_size (TransferProgress_update 15 2 (TransferProgress_update 5 1 download_of_10)) = 15
   \<and> total_size (TransferProgress_update 15 2 (TransferProgress_update 5 1 download_of_10)) = 10
   \<and> current_size (TransferProgress_update 5 0 download_of_10) = 5
   \<and> progress (TransferProgress_update 5 0 download_of_10) = 0"
  by (simp add: download_of_10_def progress_callback_def TransferProgress_is_cancelled_def
        TransferProgress_update_def TransferProgress_init_def Let_def)

text \<open>Claim C5, as the code has it. For a progress object created for any total and any
  sequence of \<^verbatim>\<open>update\<close> calls with non-negative byte counts, at any clock readings: the
  percentage lies between 0 and 100; the total is the one given at creation; transferred
  is the byte count of the last call (0 before the first) and is not negative, with no
  bound by the total. A further \<^verbatim>\<open>update(b)\<close> whose clock reading is later than the last
  recorded one sets the percentage to \<open>min(100, b/total*100)\<close> when the total is
  positive and to 0 otherwise; one whose clock reading is not later leaves the percentage
  as it was.\<close>

theorem progress_snapshot_bounds:
  assumes "\<forall>u \<in> set us. 0 \<le> fst u"
  shows "0 \<le> progress (updates us (TransferProgress_init n opn t0 t1))
       \<and> progress (updates us (TransferProgress_init n opn t0 t1)) \<le> 100
       \<and> total_size (updates us (TransferProgress_init n opn t0 t1)) = n
       \<and> (us \<noteq> [] \<longrightarrow> current_size (updates us (TransferProgress_init n opn t0 t1)) = fst (last us))
       \<and> 0 \<le> current_size (updates us (TransferProgress_init n opn t0 t1))
       \<and> (\<forall>b t. last_update_time (updates us (TransferProgress_init n opn t0 t1)) < t \<longrightarrow>
            progress (TransferProgress_update b t (updates us (TransferProgress_init n opn t0 t1))) =
              (if n > 0 then min 100 (real_of_int b / real_of_int n * 100) else 0))
       \<and> (\<forall>b t. t \<le> last_update_time (updates us (TransferProgress_init n opn t0 t1)) \<longrightarrow>
            progress (TransferProgress_update b t (updates us (TransferProgress_init n opn t0 t1))) =
              progress (updates us (TransferProgress_init n opn t0 t1)))"
proof -
  let ?ini = "TransferProgress_init n opn t0 t1"
  let ?fin = "updates us ?ini"
  have init: "0 \<le> progress ?ini" "progress ?ini \<le> 100" "total_size ?ini = n"
    "current_size ?ini = 0"
    by (simp_all add: TransferProgress_init_def)
  have b: "0 \<le> progress ?fin \<and> progress ?fin \<le> 100"
    using updates_progress_bounds [OF assms init(1) init(2)] .
  have t: "total_size ?fin = n" using updates_total_size [of us ?ini] init(3) by simp
  have c: "us \<noteq> [] \<longrightarrow> current_size ?fin = fst (last us)"
    using updates_current_size by blast
  have c0: "0 \<le> current_size ?fin"
  proof (cases "us = []")
    case True
    then show ?thesis using init(4) by simp
  next
    case False
    then have "last us \<in> set us" by simp
    with assms have "0 \<le> fst (last us)" by blast
    with c False show ?thesis by simp
  qed
  have f: "\<forall>b t. last_update_time ?fin < t \<longrightarrow>
            progress (TransferProgress_update b t ?fin) =
              (if n > 0 then min 100 (real_of_int b / real_of_int n * 100) else 0)"
    using update_progress_clock_advanced [of ?fin] t by simp
  have s: "\<forall>b t. t \<le> last_update_time ?fin \<longrightarrow>
            progress (TransferProgress_update b t ?fin) = progress ?fin"
    using update_progress_clock_stale by blast
  from b t c c0 f s show ?thesis by blast
qed

text \<open>The statement above at a download of 10 bytes with the updates 5 and 20 at the
  clock readings 1 and 2: 50 percent after the first, 100 percent and 20 bytes
  transferred after the second.\<close>

theorem progress_snapshot_bounds_witness:
  "progress (updates [(5, 1)] download_of_10) = 50
   \<and> progress (updates [(5, 1), (20, 2)] download_of_10) = 100
   \<and> current_size (updates [(5, 1), (20, 2)] download_of_10) = 20"
  using progress_snapshot_bounds [of "[(5, 1), (20, 2)]" 10 "''download''" 0 0]
  by (simp add: download_of_10_def TransferProgress_update_def TransferProgress_init_def Let_def)

section \<open>Properties of the session handlers\<close>

subsection \<open>Opening a session\<close>

text \<open>Claim C1 says that an open request for a session id that is already registered is
  rejected and leaves the registry entry unchanged. The handler has no such check: when
  client \<open>B\<close> opens \<open>s\<close> while client \<open>A\<close>'s session \<open>s\<close> is registered, the entry is
  replaced and \<open>B\<close> is told that it is connected.\<close>

theorem open_replaces_existing_session:
  "ssh_sessions session_of_A ''s'' \<noteq> None
   \<and> ssh_sessions (handle_ssh_connection ''B'' ''s'' (Connected 3 4) 1 session_of_A) ''s''
       \<noteq> ssh_sessions session_of_A ''s''
   \<and> emitted (handle_ssh_connection ''B'' ''s'' (Connected 3 4) 1 session_of_A)
       = emitted session_of_A @ [(Ssh_connected ''s'' ''Connected successfully'', Some ''B'')]"
  by (simp add: session_of_A_def handle_ssh_connection_def server_init_def emit_def Let_def)

text \<open>Claim C1, as the code has it. On a successful connect, whether or not the session id
  is registered already, the handler stores a new active session under the id, owned by
  the requesting client, in place of whatever was there; adds the id to the client's
  set; creates and starts the output-reading thread for the id and the new channel; and
  sends \<^verbatim>\<open>ssh_connected\<close> to the caller only. When the connect raises, the tables and
  threads are unchanged and the caller is sent one \<^verbatim>\<open>ssh_error\<close> of type network, auth
  or unknown.\<close>

theorem open_registers_unconditionally:
  "(conn = Connected ssh chan \<longrightarrow>
      ssh_sessions (handle_ssh_connection c sid conn now st) =
        (ssh_sessions st)(sid \<mapsto> \<lparr> ssh_client = ssh, channel = chan, active = True,
             read_thread = Some (length (threads st)), client_id = Some c,
             realtime_thread = None \<rparr>)
    \<and> client_sessions (handle_ssh_connection c sid conn now st) =
        (client_sessions st)(c \<mapsto> insert sid
           (case client_sessions st c of None \<Rightarrow> {} | Some S \<Rightarrow> S))
    \<and> threads (handle_ssh_connection c sid conn now st) =
        threads st @ [\<lparr> th_session_id = sid, th_channel = chan, th_state = Looping now [] \<rparr>]
    \<and> emitted (handle_ssh_connection c sid conn now st) =
        emitted st @ [(Ssh_connected sid ''Connected successfully'', Some c)]
    \<and> io_calls (handle_ssh_connection c sid conn now st) = io_calls st)
   \<and> ((\<forall>ssh chan. conn \<noteq> Connected ssh chan) \<longrightarrow>
      ssh_sessions (handle_ssh_connection c sid conn now st) = ssh_sessions st
    \<and> client_sessions (handle_ssh_connection c sid conn now st) = client_sessions st
    \<and> threads (handle_ssh_connection c sid conn now st) = threads st
    \<and> io_calls (handle_ssh_connection c sid conn now st) = io_calls st
    \<and> (\<exists>txt kind. emitted (handle_ssh_connection c sid conn now st) =
          emitted st @ [(Ssh_error sid (Text txt) (Some kind), Some c)]
          \<and> kind \<in> {''network'', ''auth'', ''unknown''}))"
  by (cases conn) (simp_all add: handle_ssh_connection_def emit_def Let_def)

text \<open>The statement above for client \<open>B\<close> opening \<open>s\<close> over client \<open>A\<close>'s session: after
  a successful connect the entry belongs to \<open>B\<close> and holds the new channel; after a failed
  authentication the table is as before.\<close>

theorem open_registers_unconditionally_witness:
  "(case ssh_sessions session_of_A ''s'' of
      None \<Rightarrow> False | Some s \<Rightarrow> client_id s = Some ''A'' \<and> channel s = 2)
   \<and> (case ssh_sessions (handle_ssh_connection ''B'' ''s'' (Connected 3 4) 1 session_of_A) ''s'' of
      None \<Rightarrow> False | Some s \<Rightarrow> client_id s = Some ''B'' \<and> channel s = 4)
   \<and> ssh_sessions (handle_ssh_connection ''B'' ''s'' Raises_AuthenticationException 1 session_of_A)
       = ssh_sessions session_of_A"
  using open_registers_unconditionally [of "Connected 3 4" 3 4 "''B''" "''s''" 1 session_of_A]
        open_registers_unconditionally
          [of "Raises_AuthenticationException" 3 4 "''B''" "''s''" 1 session_of_A]
  by (simp add: session_of_A_def handle_ssh_connection_def server_init_def emit_def Let_def)

subsection \<open>Closing a session of another client\<close>

lemma close_not_owner:
  "ssh_sessions st sid = Some s \<Longrightarrow> client_id s \<noteq> Some c \<Longrightarrow>
   handle_ssh_close c sid r1 r2 st = st"
  by (simp add: handle_ssh_close_def)

lemma close_unknown:
  "ssh_sessions st sid = None \<Longrightarrow> handle_ssh_close c sid r1 r2 st = st"
  by (simp add: handle_ssh_close_def)

lemma close_owner_removes:
  "ssh_sessions st sid = Some s \<Longrightarrow> client_id s = Some c \<Longrightarrow>
   ssh_sessions (handle_ssh_close c sid r1 r2 st) sid = None"
  by (simp add: handle_ssh_close_def Let_def emit_def call_def split: option.splits)

text \<open>Claim C3 says that a client closing a session of another client receives a
  not-owner error. It receives nothing: when client \<open>B\<close> asks to close client \<open>A\<close>'s
  session \<open>s\<close>, no event is emitted at all (the list of emitted events stays the one
  \<^verbatim>\<open>ssh_connected\<close> sent to \<open>A\<close>); the refusal is only printed on the server.\<close>

theorem close_by_other_client_sends_nothing:
  "(\<exists>s. ssh_sessions session_of_A ''s'' = Some s \<and> client_id s = Some ''A'')
   \<and> emitted (handle_ssh_close ''B'' ''s'' False False session_of_A) = emitted session_of_A
   \<and> emitted session_of_A = [(Ssh_connected ''s'' ''Connected successfully'', Some ''A'')]"
  by (simp add: session_of_A_def handle_ssh_connection_def handle_ssh_close_def server_init_def
        emit_def Let_def)

text \<open>Claim C3, as the code has it. A close request for a session owned by a different
  client changes nothing: the session stays registered and active, no call is made on
  its channel or connection, and no event is emitted to anyone. When the owner and
  another client both ask to close the session, in either order, the result is that of
  the owner's request alone: only the owner's request is carried out, and the session is
  gone afterwards.\<close>

theorem close_by_other_client_is_ignored:
  assumes "ssh_sessions st sid = Some s" and "client_id s = Some owner" and "c \<noteq> owner"
  shows "handle_ssh_close c sid r1 r2 st = st
       \<and> handle_ssh_close owner sid q1 q2 (handle_ssh_close c sid r1 r2 st)
           = handle_ssh_close owner sid q1 q2 st
       \<and> handle_ssh_close c sid r1 r2 (handle_ssh_close owner sid q1 q2 st)
           = handle_ssh_close owner sid q1 q2 st
       \<and> ssh_sessions (handle_ssh_close owner sid q1 q2 st) sid = None"
proof -
  have a: "handle_ssh_close c sid r1 r2 st = st"
    using close_not_owner [OF assms(1)] assms(2,3) by simp
  have b: "ssh_sessions (handle_ssh_close owner sid q1 q2 st) sid = None"
    using close_owner_removes [OF assms(1,2)] .
  have c: "handle_ssh_close c sid r1 r2 (handle_ssh_close owner sid q1 q2 st)
             = handle_ssh_close owner sid q1 q2 st"
    using close_unknown [OF b] .
  from a b c show ?thesis by simp
qed

text \<open>The statement above for client \<open>B\<close> and client \<open>A\<close>'s session \<open>s\<close>: \<open>B\<close>'s request
  leaves the server as it is; after \<open>A\<close>'s request and then \<open>B\<close>'s, the session is gone
  and the events emitted are \<open>A\<close>'s connect confirmation and one closed notification.\<close>

theorem close_by_other_client_is_ignored_witness:
  "handle_ssh_close ''B'' ''s'' False False session_of_A = session_of_A
   \<and> ssh_sessions (handle_ssh_close ''A'' ''s'' False False session_of_A) ''s'' = None
   \<and> emitted (handle_ssh_close ''B'' ''s'' False False
                (handle_ssh_close ''A'' ''s'' False False session_of_A))
       = [(Ssh_connected ''s'' ''Connected successfully'', Some ''A''),
          (Ssh_closed ''s'' ''Connection closed'', None)]"
  using close_by_other_client_is_ignored
          [of session_of_A "''s''" "the (ssh_sessions session_of_A ''s'')" "''A''" "''B''"
              False False False False]
  by (simp add: session_of_A_def handle_ssh_connection_def handle_ssh_close_def server_init_def
        emit_def call_def Let_def)

subsection \<open>Input\<close>

text \<open>Claim C6 says that pasted input which is not the last line is always followed by a
  newline. \<^verbatim>\<open>channel.send\<close> can raise (the channel is non-blocking and may be closed),
  and the handler then leaves through its \<^verbatim>\<open>except\<close> branch: when the send of the data
  raises for client \<open>A\<close> pasting \<open>ls -l\<close>, not marked as the last line, into its active
  session \<open>s\<close>, the only call made on the channel is that send, no newline follows, and
  an \<^verbatim>\<open>ssh_error\<close> with the exception's text is emitted without a room.\<close>

theorem input_newline_skipped_when_send_raises:
  "(\<exists>x. ssh_sessions session_of_A ''s'' = Some x \<and> active x \<and> client_id x = Some ''A'')
   \<and> io_calls (handle_ssh_input ''A'' ''s'' ''ls -l'' (Some True) (Some False)
                 (Some ''Socket is closed'') None session_of_A)
       = [Channel_send 2 ''ls -l'']
   \<and> emitted (handle_ssh_input ''A'' ''s'' ''ls -l'' (Some True) (Some False)
                 (Some ''Socket is closed'') None session_of_A)
       = emitted session_of_A @ [(Ssh_error ''s'' (Text ''Socket is closed'') None, None)]"
  by (simp add: session_of_A_def handle_ssh_connection_def handle_ssh_input_def server_init_def
        emit_def call_def Let_def)

text \<open>Claim C6, as the code has it. For an input request on an active session owned by the
  caller: the data is always sent to the channel verbatim first. When both
  \<^verbatim>\<open>channel.send\<close> calls return, pasted input that is not marked as the last line is
  followed by one newline, pasted input marked as the last line is followed by nothing,
  and input that is not pasted is followed by nothing; nothing else changes and no event
  is emitted. When the send of the data raises, nothing is sent after it, whatever the
  flags, and an \<^verbatim>\<open>ssh_error\<close> with the exception's text is emitted without a room; when
  the send of the newline raises, the same error is emitted after both sends.\<close>

theorem input_written_verbatim:
  assumes "ssh_sessions st sid = Some s" and "active s" and "client_id s = Some c"
  shows "(isPasted = Some True \<and> isLastLine \<noteq> Some True \<longrightarrow>
            handle_ssh_input c sid d isPasted isLastLine None None st =
              st\<lparr> io_calls := io_calls st @
                    [Channel_send (channel s) d, Channel_send (channel s) [CHR 0x0A]] \<rparr>)
       \<and> (isPasted = Some True \<and> isLastLine = Some True \<longrightarrow>
            handle_ssh_input c sid d isPasted isLastLine None newline_exn st =
              st\<lparr> io_calls := io_calls st @ [Channel_send (channel s) d] \<rparr>)
       \<and> (isPasted \<noteq> Some True \<longrightarrow>
            handle_ssh_input c sid d isPasted isLastLine None newline_exn st =
              st\<lparr> io_calls := io_calls st @ [Channel_send (channel s) d] \<rparr>)
       \<and> handle_ssh_input c sid d isPasted isLastLine (Some msg) newline_exn st =
            emit (Ssh_error sid (Text msg) None) None
              (st\<lparr> io_calls := io_calls st @ [Channel_send (channel s) d] \<rparr>)
       \<and> (isPasted = Some True \<and> isLastLine \<noteq> Some True \<longrightarrow>
            handle_ssh_input c sid d isPasted isLastLine None (Some msg) st =
              emit (Ssh_error sid (Text msg) None) None
                (st\<lparr> io_calls := io_calls st @
                      [Channel_send (channel s) d, Channel_send (channel s) [CHR 0x0A]] \<rparr>))"
  using assms by (auto simp add: handle_ssh_input_def call_def Let_def split: option.splits)

text \<open>The statement above for client \<open>A\<close> typing or pasting \<open>ls -l\<close> into its session
  \<open>s\<close>, whose channel is 2, with both sends returning and with the send of the newline
  raising.\<close>

theorem input_written_verbatim_witness:
  "(\<exists>x. ssh_sessions session_of_A ''s'' = Some x \<and> active x \<and> client_id x = Some ''A'')
   \<and> io_calls (handle_ssh_input ''A'' ''s'' ''ls -l'' (Some True) (Some False) None None session_of_A)
     = [Channel_send 2 ''ls -l'', Channel_send 2 [CHR 0x0A]]
   \<and> io_calls (handle_ssh_input ''A'' ''s'' ''ls -l'' (Some True) (Some True) None None session_of_A)
     = [Channel_send 2 ''ls -l'']
   \<and> io_calls (handle_ssh_input ''A'' ''s'' ''ls -l'' None None None None session_of_A)
     = [Channel_send 2 ''ls -l'']
   \<and> emitted (handle_ssh_input ''A'' ''s'' ''ls -l'' (Some True) (Some False) None None session_of_A)
     = emitted session_of_A
   \<and> io_calls (handle_ssh_input ''A'' ''s'' ''ls -l'' (Some True) (Some False) None
                 (Some ''Socket is closed'') session_of_A)
     = [Channel_send 2 ''ls -l'', Channel_send 2 [CHR 0x0A]]"
  using input_written_verbatim
          [of session_of_A "''s''" "the (ssh_sessions session_of_A ''s'')" "''A''"
              "Some True" "Some False" "''ls -l''" None "''Socket is closed''"]
        input_written_verbatim
          [of session_of_A "''s''" "the (ssh_sessions session_of_A ''s'')" "''A''"
              "Some True" "Some True" "''ls -l''" None "''Socket is closed''"]
        input_written_verbatim
          [of session_of_A "''s''" "the (ssh_sessions session_of_A ''s'')" "''A''"
              "None" "None" "''ls -l''" None "''Socket is closed''"]
  by (simp add: session_of_A_def handle_ssh_connection_def server_init_def emit_def call_def
        Let_def)

subsection \<open>Resize\<close>

text \<open>Claim C7 says that every resize on a known session applies the clamped size. The
  handler returns at once when the session id of the request is empty, also when a
  session is registered under the empty id: after client \<open>A\<close> opened a session with the
  empty id, a resize of it to 100 by 50 makes no call on the channel and changes
  nothing.\<close>

theorem resize_empty_session_id_ignored:
  "ssh_sessions unnamed_session_of_A [] \<noteq> None
   \<and> handle_resize ''A'' (Some []) (Some 100) (Some 50) False unnamed_session_of_A
       = unnamed_session_of_A
   \<and> io_calls unnamed_session_of_A = []"
  by (simp add: unnamed_session_of_A_def handle_ssh_connection_def handle_resize_def
        server_init_def emit_def Let_def)

text \<open>Claim C7, as the code has it. For a resize on a known session with a non-empty id,
  the handler calls \<^verbatim>\<open>resize_pty\<close> with \<open>(max(80, min(cols, 500)), max(24, min(rows, 200)))\<close>
  and, when that call returns, updates \<^verbatim>\<open>COLUMNS\<close> and \<^verbatim>\<open>LINES\<close> to the clamped values as
  decimal strings; in particular a resize to 10000 by 10000 applies 500 by 200. When
  \<^verbatim>\<open>resize_pty\<close> raises, the environment is not updated. A resize on an unknown session,
  or with an empty or missing session id, is a silent no-op.\<close>

theorem resize_clamps_and_applies:
  "(sid \<noteq> [] \<and> ssh_sessions st sid = Some s \<longrightarrow>
      handle_resize c (Some sid) (Some cols) (Some rows) False st =
        st\<lparr> io_calls := io_calls st @
              [Resize_pty (channel s) (max 80 (min cols 500)) (max 24 (min rows 200)),
               Update_environment (channel s)
                 [(''COLUMNS'', str (max 80 (min cols 500))),
                  (''LINES'', str (max 24 (min rows 200)))]] \<rparr>
    \<and> handle_resize c (Some sid) (Some 10000) (Some 10000) False st =
        st\<lparr> io_calls := io_calls st @
              [Resize_pty (channel s) 500 200,
               Update_environment (channel s) [(''COLUMNS'', ''500''), (''LINES'', ''200'')]] \<rparr>
    \<and> handle_resize c (Some sid) (Some cols) (Some rows) True st =
        st\<lparr> io_calls := io_calls st @
              [Resize_pty (channel s) (max 80 (min cols 500)) (max 24 (min rows 200))] \<rparr>)
   \<and> (ssh_sessions st sid = None \<longrightarrow>
        handle_resize c (Some sid) (Some cols) (Some rows) r st = st)
   \<and> handle_resize c (Some []) (Some cols) (Some rows) r st = st
   \<and> handle_resize c None (Some cols) (Some rows) r st = st"
proof -
  have a: "str 500 = ''500''" "str 200 = ''200''"
    by (simp_all add: str_def str_nat.simps)
  show ?thesis
    by (auto simp add: handle_resize_def call_def Let_def a)
qed

text \<open>The statement above on client \<open>A\<close>'s session \<open>s\<close>, whose channel is 2, for the
  sizes 10000 by 10000 and 10 by 50, and on the unknown session \<open>x\<close>.\<close>

theorem resize_clamps_and_applies_witness:
  "io_calls (handle_resize ''A'' (Some ''s'') (Some 10000) (Some 10000) False session_of_A)
     = [Resize_pty 2 500 200, Update_environment 2 [(''COLUMNS'', ''500''), (''LINES'', ''200'')]]
   \<and> io_calls (handle_resize ''A'' (Some ''s'') (Some 10) (Some 50) False session_of_A)
     = [Resize_pty 2 80 50, Update_environment 2 [(''COLUMNS'', ''80''), (''LINES'', ''50'')]]
   \<and> handle_resize ''A'' (Some ''x'') (Some 10) (Some 50) False session_of_A = session_of_A"
  using resize_clamps_and_applies
          [of "''s''" session_of_A "the (ssh_sessions session_of_A ''s'')" "''A''" 10 50 False]
        resize_clamps_and_applies
          [of "''x''" session_of_A "the (ssh_sessions session_of_A ''s'')" "''A''" 10 50 False]
  by (simp add: session_of_A_def handle_ssh_connection_def server_init_def emit_def Let_def
        str_def str_nat.simps)

text \<open>Claim C10: the handler's result does not depend on the client the request came
  from. So on a known, active session with a non-empty id that the requesting client
  does not own, a resize makes its calls on the session's channel, with the tables and
  the emitted events unchanged, whereas an input request from that client is answered
  with the not-owner error and a close request from it changes nothing.\<close>

theorem resize_ignores_requesting_client:
  "handle_resize c1 sid cols rows r st = handle_resize c2 sid cols rows r st
   \<and> (ssh_sessions st s = Some session \<and> s \<noteq> [] \<and> active session
        \<and> client_id session \<noteq> Some c2 \<longrightarrow>
        io_calls (handle_resize c2 (Some s) cols rows r st) \<noteq> io_calls st
      \<and> ssh_sessions (handle_resize c2 (Some s) cols rows r st) = ssh_sessions st
      \<and> emitted (handle_resize c2 (Some s) cols rows r st) = emitted st
      \<and> handle_ssh_input c2 s d p l e1 e2 st =
          emit (Ssh_error s (Text ''Session belongs to another client'') None) (Some c2) st
      \<and> handle_ssh_close c2 s r1 r2 st = st)"
  by (auto simp add: handle_resize_def handle_ssh_input_def handle_ssh_close_def call_def Let_def)

text \<open>The statement above for client \<open>B\<close> and client \<open>A\<close>'s session \<open>s\<close>: \<open>B\<close>'s resize
  does what \<open>A\<close>'s does and reaches the channel; \<open>B\<close>'s input reaches no channel and
  \<open>B\<close>'s close request changes nothing.\<close>

theorem resize_ignores_requesting_client_witness:
  "(\<exists>x. ssh_sessions session_of_A ''s'' = Some x \<and> active x \<and> client_id x \<noteq> Some ''B'')
   \<and> handle_resize ''B'' (Some ''s'') (Some 100) (Some 30) False session_of_A
     = handle_resize ''A'' (Some ''s'') (Some 100) (Some 30) False session_of_A
   \<and> io_calls (handle_resize ''B'' (Some ''s'') (Some 100) (Some 30) False session_of_A)
     = [Resize_pty 2 100 30, Update_environment 2 [(''COLUMNS'', ''100''), (''LINES'', ''30'')]]
   \<and> io_calls (handle_ssh_input ''B'' ''s'' ''x'' None None None None session_of_A) = []
   \<and> handle_ssh_close ''B'' ''s'' False False session_of_A = session_of_A"
  using resize_ignores_requesting_client
          [of "''A''" "Some ''s''" "Some 100" "Some 30" False session_of_A "''B''" "''s''"
              "the (ssh_sessions session_of_A ''s'')" "''x''" None None None None False False]
  by (simp add: session_of_A_def handle_ssh_connection_def handle_resize_def handle_ssh_input_def
        handle_ssh_close_def server_init_def emit_def call_def Let_def str_def str_nat.simps)

subsection \<open>Closed notifications over an execution\<close>

lemma closed_count_emit:
  "closed_count sid (emit e room st) =
     closed_count sid st + (if is_closed_event sid (e, room) then 1 else 0)"
  by (simp add: closed_count_def emit_def)

lemma closed_count_call: "closed_count x (call c st) = closed_count x st"
  by (simp add: closed_count_def call_def)

lemma threads_emit_call:
  "threads (emit e room st) = threads st" "threads (call c st) = threads st"
  by (simp_all add: emit_def call_def)

lemma finally_threads: "threads (read_output_finally s st) = threads st"
  by (simp add: read_output_finally_def emit_def split: option.splits)

lemma finally_closed_count:
  "closed_count x (read_output_finally s st) = closed_count x st + (if s = x then 1 else 0)"
  by (simp add: read_output_finally_def emit_def closed_count_def split: option.splits)

text \<open>An iteration emits one closed notification for its session when it leaves the
  loop, whatever made it leave, and none when the loop goes on.\<close>

lemma iteration_effect:
  assumes "read_output_iteration decode s ch la buf obs st = (ts, st')"
  shows "threads st' = threads st \<and>
         closed_count x st' = closed_count x st + (if ts = Finished \<and> s = x then 1 else 0)"
  using assms
  by (auto simp add: read_output_iteration_def Let_def finally_threads finally_closed_count
        closed_count_emit closed_count_call threads_emit_call
      split: option.splits recv_outcome.splits if_splits)

lemma filter_update_count:
  "i < length xs \<Longrightarrow>
   length (filter P (xs[i := y])) + (if P (xs ! i) then 1 else 0) =
   length (filter P xs) + (if P y then 1 else 0)"
proof (induction xs arbitrary: i)
  case Nil
  then show ?case by simp
next
  case (Cons x xs)
  show ?case
  proof (cases i)
    case 0
    then show ?thesis by simp
  next
    case (Suc j)
    with Cons.prems have "j < length xs" by simp
    from Cons.IH [OF this] Suc show ?thesis by simp
  qed
qed

lemma pump_effect:
  "closed_count x (pump decode tid obs st) + finished_threads x st =
   closed_count x st + finished_threads x (pump decode tid obs st)"
proof (cases "tid < length (threads st)")
  case False
  then show ?thesis by (simp add: pump_def)
next
  case True
  let ?th = "threads st ! tid"
  show ?thesis
  proof (cases "th_state ?th")
    case Finished
    with True show ?thesis by (simp add: pump_def Let_def)
  next
    case (Looping la buf)
    obtain ts st' where it:
      "read_output_iteration decode (th_session_id ?th) (th_channel ?th) la buf obs st = (ts, st')"
      by (cases "read_output_iteration decode (th_session_id ?th) (th_channel ?th) la buf obs st")
    from iteration_effect [OF it, of x]
    have thr: "threads st' = threads st"
      and cnt: "closed_count x st' =
                closed_count x st + (if ts = Finished \<and> th_session_id ?th = x then 1 else 0)"
      by simp_all
    let ?P = "\<lambda>th. th_session_id th = x \<and> th_state th = Finished"
    have res: "pump decode tid obs st =
               st'\<lparr> threads := (threads st)[tid := ?th\<lparr> th_state := ts \<rparr>] \<rparr>"
      using True Looping it thr by (simp add: pump_def Let_def)
    have notP: "\<not> ?P ?th" using Looping by simp
    from filter_update_count [OF True, of ?P "?th\<lparr> th_state := ts \<rparr>"] notP
    have fin: "finished_threads x (pump decode tid obs st) =
               finished_threads x st + (if th_session_id ?th = x \<and> ts = Finished then 1 else 0)"
      by (simp add: res finished_threads_def)
    have cc: "closed_count x (pump decode tid obs st) = closed_count x st'"
      by (simp add: res closed_count_def)
    from fin cc cnt show ?thesis by auto
  qed
qed

lemma open_effect:
  "closed_count x (handle_ssh_connection c sid conn now st) = closed_count x st \<and>
   finished_threads x (handle_ssh_connection c sid conn now st) = finished_threads x st"
  by (cases conn)
     (simp_all add: handle_ssh_connection_def Let_def emit_def closed_count_def
        finished_threads_def)

lemma input_effect:
  "closed_count x (handle_ssh_input c sid d p l e1 e2 st) = closed_count x st \<and>
   finished_threads x (handle_ssh_input c sid d p l e1 e2 st) = finished_threads x st"
  by (simp add: handle_ssh_input_def Let_def emit_def call_def closed_count_def
        finished_threads_def split: option.splits)

lemma resize_effect:
  "closed_count x (handle_resize c sid cols rows r st) = closed_count x st \<and>
   finished_threads x (handle_resize c sid cols rows r st) = finished_threads x st"
  by (simp add: handle_resize_def Let_def call_def closed_count_def finished_threads_def
        split: option.splits)

lemma close_effect:
  "closed_count x (handle_ssh_close c sid r1 r2 st) =
     closed_count x st + (if sid = x \<and> close_succeeds c sid st then 1 else 0) \<and>
   finished_threads x (handle_ssh_close c sid r1 r2 st) = finished_threads x st"
  by (simp add: handle_ssh_close_def close_succeeds_def Let_def emit_def call_def
        closed_count_def finished_threads_def split: option.splits)

lemma step_effect:
  "closed_count x (step decode a st) + finished_threads x st =
   closed_count x st + finished_threads x (step decode a st) + successful_closes decode x [a] st"
proof (cases a)
  case (Open_ssh c sid conn now)
  then show ?thesis using open_effect [of x c sid conn now st] by simp
next
  case (Ssh_input c sid d p l e1 e2)
  then show ?thesis using input_effect [of x c sid d p l e1 e2 st] by simp
next
  case (Close_ssh c sid r1 r2)
  then show ?thesis using close_effect [of x c sid r1 r2 st] by auto
next
  case (Resize c sid cols rows r)
  then show ?thesis using resize_effect [of x c sid cols rows r st] by simp
next
  case (Pump tid obs)
  then show ?thesis using pump_effect [of x decode tid obs st] by simp
qed

lemma successful_closes_Cons:
  "successful_closes decode x (a # as) st =
     successful_closes decode x [a] st + successful_closes decode x as (step decode a st)"
  by simp

lemma run_effect:
  "closed_count x (run decode as st) + finished_threads x st =
   closed_count x st + finished_threads x (run decode as st) + successful_closes decode x as st"
proof (induction as arbitrary: st)
  case Nil
  then show ?case by simp
next
  case (Cons a as)
  have s: "closed_count x (step decode a st) + finished_threads x st =
           closed_count x st + finished_threads x (step decode a st)
             + successful_closes decode x [a] st"
    by (rule step_effect)
  have r: "closed_count x (run decode as (step decode a st)) + finished_threads x (step decode a st) =
           closed_count x (step decode a st) + finished_threads x (run decode as (step decode a st))
             + successful_closes decode x as (step decode a st)"
    by (rule Cons.IH)
  have c: "successful_closes decode x (a # as) st =
     successful_closes decode x [a] st + successful_closes decode x as (step decode a st)"
    by (rule successful_closes_Cons)
  show ?case unfolding run.simps c using s r by linarith
qed

text \<open>Claim C2 says that exactly one closed notification is emitted per session. Two are
  emitted whenever a client closes a session: one by \<^verbatim>\<open>handle_ssh_close\<close> and one by the
  session's \<^verbatim>\<open>read_output\<close> thread, which finds the session gone at its next iteration
  and runs its \<^verbatim>\<open>finally\<close> block. Two are emitted as well when the remote side closes
  the channel and the client closes the session afterwards.\<close>

theorem close_and_pump_both_notify:
  "closed_count ''s'' (run id client_closes_first server_init) = 2
   \<and> closed_count ''s'' (run id remote_closes_first server_init) = 2"
  by (simp add: client_closes_first_def remote_closes_first_def closed_count_def server_init_def
        handle_ssh_connection_def handle_ssh_close_def pump_def read_output_iteration_def
        read_output_finally_def emit_def call_def Let_def idle_def hung_up_def)

text \<open>Claim C2, as the code has it. Over any execution from the empty server, the number
  of closed notifications carrying a session id is the number of \<^verbatim>\<open>read_output\<close> threads
  of that id that have left their loop plus the number of close requests for that id that
  were carried out. Each thread emits exactly one closed notification when it leaves its
  loop, whatever the cause (session closed by the client, channel closed by the remote
  side, read error, failed keepalive), and each close request of the owner emits one of
  its own.\<close>

theorem closed_notifications_counted:
  "closed_count sid (run decode as server_init) =
     finished_threads sid (run decode as server_init)
       + successful_closes decode sid as server_init"
  using run_effect [of sid decode as server_init]
  by (simp add: closed_count_def finished_threads_def server_init_def)

text \<open>The statement above at the execution in which the client closes its session and
  the thread then runs: one thread has finished, one close request was carried out, two
  notifications were emitted.\<close>

theorem closed_notifications_counted_witness:
  "finished_threads ''s'' (run id client_closes_first server_init) = 1
   \<and> successful_closes id ''s'' client_closes_first server_init = 1
   \<and> closed_count ''s'' (run id client_closes_first server_init) = 2"
  using closed_notifications_counted [of "''s''" id client_closes_first]
  by (simp add: client_closes_first_def closed_count_def finished_threads_def close_succeeds_def
        server_init_def handle_ssh_connection_def handle_ssh_close_def pump_def
        read_output_iteration_def read_output_finally_def emit_def call_def Let_def idle_def)

end
